theory Spec2Isabelle
  imports Complex_Main "HOL-Library.Log_Nat"
begin

section \<open>Values, exceptions and results\<close>

text \<open>
  The two Mongoose models of the repository, \<^verbatim>\<open>server/models/driver.js\<close> and
  \<^verbatim>\<open>server/models/order.js\<close>, are embedded as functions over records. Every
  method is \<^verbatim>\<open>async\<close>: a call either resolves to a value (\<open>Returned\<close>) or rejects
  with the thrown value (\<open>Threw\<close>). The outcome of each call into a collaborator
  (\<^verbatim>\<open>save\<close>, \<^verbatim>\<open>populate\<close>, \<^verbatim>\<open>findById\<close>, \<^verbatim>\<open>remove\<close>,
  \<^verbatim>\<open>bcrypt.compare\<close>, \<^verbatim>\<open>sendMail\<close>, \<^verbatim>\<open>getAddressString\<close>) is a parameter of the
  method that makes the call, and the object a method mutates (\<^verbatim>\<open>this\<close>, an argument,
  a collection) is returned next to the outcome. A document that does not pass the
  validation of its schema is one of the reasons for which \<^verbatim>\<open>save\<close> throws.

  An ObjectId is modelled by its hexadecimal string, so \<^verbatim>\<open>_id.toString()\<close> is the
  identity. A reference field that is not set (\<^verbatim>\<open>undefined\<close>) is \<open>None\<close>.
\<close>

type_synonym objectId = string
type_synonym address = string

datatype exn = TypeError string | ExternalError string

subsection \<open>Numbers\<close>

text \<open>
  A JavaScript Number is an IEEE 754 binary64 value: \<^verbatim>\<open>NaN\<close>, an infinity, or a finite
  value, kept as the rational it denotes. The two zeros are one value here: they are
  equal under \<^verbatim>\<open>===\<close>, both are falsy and print as \<^verbatim>\<open>0\<close>, and where \<^verbatim>\<open>+\<close> and
  \<^verbatim>\<open>-\<close> give a zero only its sign is lost.

  \<open>round_double\<close> is rounding to nearest, ties to even: \<open>q\<close> is the exponent of the
  unit in the last place of the 53-bit significand (\<open>- 1074\<close> for subnormal values),
  and a result of magnitude \<open>2 ^ 1024\<close> or more is an infinity. A decimal literal
  denotes the rounding of its value, and so do the sum and the difference of two finite
  Numbers.
\<close>

datatype double = NaN | PosInfinity | NegInfinity | Finite rat

definition pow2 :: "int \<Rightarrow> rat" where
  "pow2 k = (if 0 \<le> k then 2 ^ nat k else 1 / 2 ^ nat (- k))"

definition round_half_even :: "rat \<Rightarrow> int" where
  "round_half_even x =
     (let f = \<lfloor>x\<rfloor>; d = x - of_int f
      in if d < 1 / 2 then f else if 1 / 2 < d then f + 1 else if even f then f else f + 1)"

text \<open>\<open>\<lfloor>log\<^sub>2 a\<rfloor>\<close> for a positive rational \<open>a\<close>, by the bit length of an integer.\<close>

definition floor_log2 :: "rat \<Rightarrow> int" where
  "floor_log2 a =
     (if 1 \<le> a then bitlen \<lfloor>a\<rfloor> - 1
      else (let b = 1 / a; k = bitlen \<lfloor>b\<rfloor> - 1
            in if b = pow2 k then - k else - (k + 1)))"

definition round_double :: "rat \<Rightarrow> double" where
  "round_double r =
     (if r = 0 then Finite 0
      else
        (let a = \<bar>r\<bar>;
             q = max (floor_log2 a - 52) (- 1074);
             v = of_int (round_half_even (a * pow2 (- q))) * pow2 q
         in if pow2 1024 \<le> v then (if 0 < r then PosInfinity else NegInfinity)
            else Finite (if 0 < r then v else - v)))"

text \<open>\<^verbatim>\<open>x + y\<close>, \<^verbatim>\<open>-x\<close> and \<^verbatim>\<open>x - y\<close> on Numbers.\<close>

fun dadd :: "double \<Rightarrow> double \<Rightarrow> double" where
  "dadd NaN y = NaN"
| "dadd x NaN = NaN"
| "dadd PosInfinity NegInfinity = NaN"
| "dadd NegInfinity PosInfinity = NaN"
| "dadd PosInfinity y = PosInfinity"
| "dadd NegInfinity y = NegInfinity"
| "dadd x PosInfinity = PosInfinity"
| "dadd x NegInfinity = NegInfinity"
| "dadd (Finite a) (Finite b) = round_double (a + b)"

fun dneg :: "double \<Rightarrow> double" where
  "dneg NaN = NaN"
| "dneg PosInfinity = NegInfinity"
| "dneg NegInfinity = PosInfinity"
| "dneg (Finite a) = Finite (- a)"

definition dsub :: "double \<Rightarrow> double \<Rightarrow> double" where
  "dsub x y = dadd x (dneg y)"


text \<open>
  The whole numbers of magnitude at most \<open>2 ^ 53\<close>, the range in which every whole
  number is a Number, and the integer such a Number denotes.
\<close>

definition whole :: "double \<Rightarrow> bool" where
  "whole x = (case x of Finite r \<Rightarrow> r = of_int \<lfloor>r\<rfloor> \<and> \<bar>r\<bar> \<le> 2 ^ 53 | _ \<Rightarrow> False)"

definition int_of :: "double \<Rightarrow> int" where
  "int_of x = (case x of Finite r \<Rightarrow> \<lfloor>r\<rfloor> | _ \<Rightarrow> 0)"

definition digit :: "nat \<Rightarrow> char" where
  "digit n = ''0123456789'' ! (n mod 10)"

fun show_nat :: "nat \<Rightarrow> string" where
  "show_nat n = (if n < 10 then [digit n] else show_nat (n div 10) @ [digit n])"

declare show_nat.simps [simp del]

definition show_int :: "int \<Rightarrow> string" where
  "show_int i = (if i < 0 then CHR ''-'' # show_nat (nat (- i)) else show_nat (nat i))"

text \<open>
  \<^verbatim>\<open>Number.prototype.toString\<close>: a whole number of magnitude at most \<open>2 ^ 53\<close> prints as
  its decimal digits. Any other finite Number prints as the shortest decimal that reads
  back as the same Number; that conversion is \<open>shortest\<close>, a parameter of every operation
  that may print a Number.
\<close>

type_synonym printer = "rat \<Rightarrow> string"

definition number_string :: "printer \<Rightarrow> double \<Rightarrow> string" where
  "number_string shortest x =
     (case x of
        NaN \<Rightarrow> ''NaN''
      | PosInfinity \<Rightarrow> ''Infinity''
      | NegInfinity \<Rightarrow> ''-Infinity''
      | Finite r \<Rightarrow> if whole x then show_int \<lfloor>r\<rfloor> else shortest r)"

subsection \<open>Values\<close>

datatype jsval = JUndefined | JNull | JBool bool | JNum double | JStr string

fun truthy :: "jsval \<Rightarrow> bool" where
  "truthy JUndefined = False"
| "truthy JNull = False"
| "truthy (JBool b) = b"
| "truthy (JNum x) = (x \<noteq> NaN \<and> x \<noteq> Finite 0)"
| "truthy (JStr s) = (s \<noteq> [])"

text \<open>What a template literal \<^verbatim>\<open>${v}\<close> and a property key \<^verbatim>\<open>obj[v]\<close> make of a value.\<close>

fun to_string :: "printer \<Rightarrow> jsval \<Rightarrow> string" where
  "to_string shortest JUndefined = ''undefined''"
| "to_string shortest JNull = ''null''"
| "to_string shortest (JBool b) = (if b then ''true'' else ''false'')"
| "to_string shortest (JNum x) = number_string shortest x"
| "to_string shortest (JStr s) = s"

text \<open>
  The error object \<^verbatim>\<open>{message, errorString, functionName, status}\<close>; a key the source
  leaves out is \<open>None\<close>. \<^verbatim>\<open>errorString\<close> is the JSON serialisation of the caught
  value; the model keeps the caught value itself.
\<close>

record error_obj =
  message :: "string option"
  errorString :: "exn option"
  functionName :: "string option"
  err_status :: "nat option"

section \<open>The schemas\<close>

record Order =
  order_id :: objectId
  customer :: "objectId option"
  vendor :: "objectId option"
  driver :: "objectId option"
  orderItems :: "objectId list"
  total :: double
  tip :: "double option"
  disposition :: string

text \<open>
  \<open>orders\<close> holds the ids of the driver's assigned orders; \<^verbatim>\<open>populate("orders")\<close>
  replaces them by the documents it loads.
\<close>

record Driver =
  driver_id :: objectId
  email :: string
  password :: string
  status :: string
  deviceTokens :: "string list"
  emailSettings :: "(string \<times> bool) list"
  notificationSettings :: "(string \<times> bool) list"
  orders :: "objectId list"

record Message =
  msg_messageType :: "string option"
  msg_recipient :: objectId
  msg_recipientModel :: string
  msg_sender :: "objectId option"
  msg_senderModel :: string
  msg_title :: string
  msg_body :: string
  msg_data :: "(string \<times> string) list"
  msg_deviceTokens :: "string list"

record Vendor =
  vendor_id :: objectId
  businessName :: string
  vendor_address :: "address option"

record Customer =
  firstName :: string
  lastName :: "string option"

datatype retval =
    Undefined
  | Boolean bool
  | Status string
  | Delivery string
  | Saved_Message Message
  | Driver_Doc Driver
  | Order_Doc Order
  | Error error_obj
  | Error_Raw exn string

datatype outcome = Returned retval | Threw exn

text \<open>\<^verbatim>\<open>try { body } catch (error) { return handler(error) }\<close>.\<close>

definition try_catch :: "outcome \<times> 's \<Rightarrow> (exn \<Rightarrow> retval) \<Rightarrow> outcome \<times> 's" where
  "try_catch r handler =
     (case fst r of Threw e \<Rightarrow> (Returned (handler e), snd r) | Returned v \<Rightarrow> r)"

section \<open>driver.js\<close>

text \<open>
  \<^verbatim>\<open>validatePassword\<close> hands \<^verbatim>\<open>this.password\<close> and its argument to
  \<^verbatim>\<open>bcrypt.compare(data, encrypted)\<close>, in this order.
\<close>

definition validatePassword ::
  "(string \<Rightarrow> string \<Rightarrow> exn + bool) \<Rightarrow> Driver \<Rightarrow> string \<Rightarrow> outcome" where
  "validatePassword bcrypt_compare this pw =
     (case bcrypt_compare (password this) pw of
        Inl e \<Rightarrow> Threw e
      | Inr b \<Rightarrow> Returned (Boolean b))"

text \<open>
  The settings objects are plain objects: a key they do not hold themselves is looked up
  in \<^verbatim>\<open>Object.prototype\<close>, whose members are all truthy.
\<close>

definition object_prototype_keys :: "string list" where
  "object_prototype_keys =
     [''constructor'', ''hasOwnProperty'', ''isPrototypeOf'', ''propertyIsEnumerable'',
      ''toLocaleString'', ''toString'', ''valueOf'', ''__proto__'',
      ''__defineGetter__'', ''__defineSetter__'', ''__lookupGetter__'', ''__lookupSetter__'']"

definition setting_enabled :: "printer \<Rightarrow> (string \<times> bool) list \<Rightarrow> jsval \<Rightarrow> bool" where
  "setting_enabled shortest settings setting =
     (case map_of settings (to_string shortest setting) of
        Some b \<Rightarrow> b
      | None \<Rightarrow> to_string shortest setting \<in> set object_prototype_keys)"

definition sendEmail ::
  "printer \<Rightarrow> (exn + string) \<Rightarrow> Driver \<Rightarrow> jsval \<Rightarrow> outcome \<times> unit" where
  "sendEmail shortest sendMail this setting =
     try_catch
       (if setting_enabled shortest (emailSettings this) setting \<or> setting = JStr ''ACCOUNT'' then
          (case sendMail of Inl e \<Rightarrow> (Threw e, ()) | Inr r \<Rightarrow> (Returned (Delivery r), ()))
        else
          (Returned (Error \<lparr>message =
               Some (''Driver has turned off email setting: '' @ to_string shortest setting),
             errorString = None, functionName = None, err_status = Some 200\<rparr>), ()))
       (\<lambda>error. Error \<lparr>message = None, errorString = Some error,
          functionName = Some ''sendEmail'', err_status = Some 200\<rparr>)"

record sendMessage_args =
  setting :: jsval
  title :: string
  body :: string
  data :: "(string \<times> string) list option"
  senderId :: "objectId option"
  senderModel :: string

text \<open>
  \<^verbatim>\<open>sendMessage\<close>: the second component is the Message collection, to which
  \<^verbatim>\<open>message.save()\<close> adds the new document when it succeeds.
\<close>

definition sendMessage ::
  "printer \<Rightarrow> exn option \<Rightarrow> Driver \<Rightarrow> Message list \<Rightarrow> sendMessage_args
     \<Rightarrow> outcome \<times> Message list" where
  "sendMessage shortest message_save this messages a =
     try_catch
       (if truthy (setting a) \<and>
           setting_enabled shortest (notificationSettings this) (setting a) then
          (case data a of
             None \<Rightarrow> (Threw (TypeError ''data is undefined''), messages)
           | Some d \<Rightarrow>
               (let message = \<lparr>msg_messageType = map_of d ''messageType'',
                      msg_recipient = driver_id this, msg_recipientModel = ''Driver'',
                      msg_sender = senderId a, msg_senderModel = senderModel a,
                      msg_title = title a, msg_body = body a, msg_data = d,
                      msg_deviceTokens = deviceTokens this\<rparr>
                in case message_save of
                     Some e \<Rightarrow> (Threw e, messages)
                   | None \<Rightarrow> (Returned (Saved_Message message), messages @ [message])))
        else
          (Returned (Error \<lparr>message =
               Some (''Driver has turned off notification setting: '' @
                     to_string shortest (setting a)),
             errorString = None, functionName = None, err_status = Some 200\<rparr>), messages))
       (\<lambda>error. Error \<lparr>message = None, errorString = Some error,
          functionName = Some ''sendMessage'', err_status = Some 200\<rparr>)"

definition toggleStatus :: "exn option \<Rightarrow> Driver \<Rightarrow> string \<Rightarrow> outcome \<times> Driver" where
  "toggleStatus save this new_status =
     (if length (orders this) \<noteq> 0 \<and> new_status = ''INACTIVE'' then
        (Returned (Error \<lparr>message = Some ''There are still active orders on your route!'',
           errorString = None, functionName = Some ''toggleStatus'', err_status = Some 418\<rparr>), this)
      else
        (let this' = this\<lparr>status := new_status\<rparr>
         in case save of
              Some e \<Rightarrow> (Threw e, this')
            | None \<Rightarrow> (Returned (Status (status this')), this')))"

text \<open>\<^verbatim>\<open>pull\<close> removes every element equal to its argument, \<^verbatim>\<open>push\<close> appends.\<close>

definition addDeviceToken :: "exn option \<Rightarrow> Driver \<Rightarrow> string \<Rightarrow> outcome \<times> Driver" where
  "addDeviceToken save this deviceToken =
     (let pulled = this\<lparr>deviceTokens := filter (\<lambda>t. t \<noteq> deviceToken) (deviceTokens this)\<rparr>;
          this' = pulled\<lparr>deviceTokens := deviceTokens pulled @ [deviceToken]\<rparr>
      in case save of
           Some e \<Rightarrow> (Threw e, this')
         | None \<Rightarrow> (Returned (Driver_Doc this'), this'))"

text \<open>
  \<^verbatim>\<open>requestDriver\<close>. Its collaborators: \<open>assigned_orders\<close> are the documents of the
  driver's assigned orders in the Order collection, in the order of \<^verbatim>\<open>this.orders\<close>, and
  \<open>populate_orders\<close> is what \<^verbatim>\<open>this.populate("orders").execPopulate()\<close> throws, if
  anything; \<open>populate_order\<close> is the outcome of
  \<^verbatim>\<open>order.populate("vendor customer address").execPopulate()\<close>, the resolved
  documents (\<open>None\<close> for a reference that resolves to nothing) or the thrown value.
\<close>

record populated =
  pop_vendor :: "Vendor option"
  pop_customer :: "Customer option"
  pop_address :: "address option"

record requestDriver_env =
  assigned_orders :: "Order list"
  populate_orders :: "exn option"
  populate_order :: "exn + populated"
  getAddressString :: "address option \<Rightarrow> exn + string"
  save_message :: "exn option"

text \<open>
  The title, body and payload of the request, evaluated in the order of the source; reading
  a property of \<^verbatim>\<open>undefined\<close> or \<^verbatim>\<open>null\<close> throws a TypeError, and indexing the empty
  string gives \<^verbatim>\<open>undefined\<close>.
\<close>

definition request_message ::
  "printer \<Rightarrow> (address option \<Rightarrow> exn + string) \<Rightarrow> Order \<Rightarrow> populated
     \<Rightarrow> exn + sendMessage_args" where
  "request_message shortest address_string order p =
     (case pop_vendor p of
        None \<Rightarrow> Inl (TypeError ''vendor is null'')
      | Some v \<Rightarrow>
     (case pop_customer p of
        None \<Rightarrow> Inl (TypeError ''customer is null'')
      | Some c \<Rightarrow>
     (case lastName c of
        None \<Rightarrow> Inl (TypeError ''customer.lastName is undefined'')
      | Some surname \<Rightarrow>
     (case address_string (vendor_address v) of
        Inl e \<Rightarrow> Inl e
      | Inr businessAddress \<Rightarrow>
     (case address_string (pop_address p) of
        Inl e \<Rightarrow> Inl e
      | Inr customerAddress \<Rightarrow>
     (case tip order of
        None \<Rightarrow> Inl (TypeError ''order.tip is undefined'')
      | Some t \<Rightarrow>
          Inr \<lparr>setting = JStr ''REQUEST_DRIVER'',
               title = ''Incoming Order!'',
               body = ''New order from '' @ businessName v @ ''.'',
               data = Some
                 [(''orderId'', order_id order),
                  (''messageType'', ''REQUEST_DRIVER''),
                  (''openModal'', ''true''),
                  (''businessName'', businessName v),
                  (''customerName'', firstName c @ '' '' @
                     (case surname of [] \<Rightarrow> ''undefined'' | ch # _ \<Rightarrow> [ch])),
                  (''businessAddress'', businessAddress),
                  (''customerAddress'', customerAddress),
                  (''tip'', number_string shortest t)],
               senderId = Some (vendor_id v),
               senderModel = ''Vendor''\<rparr>))))))"

definition refusal :: "string \<Rightarrow> retval" where
  "refusal text =
     Error \<lparr>message = Some text, errorString = None, functionName = None, err_status = None\<rparr>"

text \<open>
  \<^verbatim>\<open>a !== b\<close> on a reference field of a document that \<^verbatim>\<open>populate\<close> has just loaded
  and a reference field of another document. A field that is set holds an ObjectId object
  of its own, and \<^verbatim>\<open>!==\<close> on two objects is the identity of the objects, whatever ids
  they stand for: the comparison is false only when both fields are \<^verbatim>\<open>undefined\<close>.
\<close>

definition not_same_object :: "objectId option \<Rightarrow> objectId option \<Rightarrow> bool" where
  "not_same_object a b = (\<not> (a = None \<and> b = None))"

text \<open>
  The block \<^verbatim>\<open>if (this.orders.length) { ... }\<close>: \<open>Inr True\<close> when it returns the
  refusal, \<open>Inr False\<close> when it falls through. \<^verbatim>\<open>this.orders[0]\<close> is \<^verbatim>\<open>undefined\<close> when
  no document has been loaded.
\<close>

definition other_vendor :: "requestDriver_env \<Rightarrow> Driver \<Rightarrow> Order \<Rightarrow> exn + bool" where
  "other_vendor env this order =
     (if length (orders this) \<noteq> 0 then
        (case populate_orders env of
           Some e \<Rightarrow> Inl e
         | None \<Rightarrow>
             (case assigned_orders env of
                [] \<Rightarrow> Inl (TypeError ''this.orders[0] is undefined'')
              | first # rest \<Rightarrow> Inr (not_same_object (vendor first) (vendor order))))
      else Inr False)"

definition requestDriver ::
  "printer \<Rightarrow> requestDriver_env \<Rightarrow> Driver \<Rightarrow> Message list \<Rightarrow> Order
     \<Rightarrow> outcome \<times> Message list" where
  "requestDriver shortest env this messages order =
     try_catch
       (if driver order \<noteq> None then
          (Returned (refusal ''Order already has a driver assigned.''), messages)
        else
          (case other_vendor env this order of
             Inl e \<Rightarrow> (Threw e, messages)
           | Inr True \<Rightarrow>
               (Returned (refusal ''Driver is currently delivering for another vendor.''),
                messages)
           | Inr False \<Rightarrow>
               if status this = ''INACTIVE'' then
                 (Returned (refusal ''Driver is offline.''), messages)
               else
                 (case populate_order env of
                    Inl e \<Rightarrow> (Threw e, messages)
                  | Inr p \<Rightarrow>
                      (case request_message shortest (getAddressString env) order p of
                         Inl e \<Rightarrow> (Threw e, messages)
                       | Inr a \<Rightarrow> sendMessage shortest (save_message env) this messages a))))
       (\<lambda>error. Error \<lparr>message = None, errorString = Some error,
          functionName = Some ''requestDriver'', err_status = None\<rparr>)"

text \<open>
  \<^verbatim>\<open>notifyOrderReady\<close> and \<^verbatim>\<open>notifyOrderCanceled\<close> await \<^verbatim>\<open>sendMessage\<close> and have
  no \<^verbatim>\<open>return\<close> in the \<^verbatim>\<open>try\<close> block.
\<close>

definition notifyOrderReady ::
  "printer \<Rightarrow> exn option \<Rightarrow> Driver \<Rightarrow> Message list \<Rightarrow> Vendor \<Rightarrow> Order
     \<Rightarrow> outcome \<times> Message list" where
  "notifyOrderReady shortest message_save this messages v order =
     try_catch
       (let sent = sendMessage shortest message_save this messages
              \<lparr>setting = JStr ''REQUEST_DRIVER'',
               title = ''Order up!'',
               body = ''The order at '' @ businessName v @ '' is ready.'',
               data = Some
                 [(''orderId'', order_id order),
                  (''messageType'', ''ORDER_READY''),
                  (''openModal'', ''false'')],
               senderId = Some (vendor_id v),
               senderModel = ''Vendor''\<rparr>
        in case fst sent of
             Threw e \<Rightarrow> (Threw e, snd sent)
           | Returned r \<Rightarrow> (Returned Undefined, snd sent))
       (\<lambda>error. Error \<lparr>message = None, errorString = Some error,
          functionName = Some ''notifyOrderReady'', err_status = None\<rparr>)"

definition notifyOrderCanceled ::
  "printer \<Rightarrow> exn option \<Rightarrow> Driver \<Rightarrow> Message list \<Rightarrow> Vendor \<Rightarrow> Order
     \<Rightarrow> outcome \<times> Message list" where
  "notifyOrderCanceled shortest message_save this messages v order =
     try_catch
       (let sent = sendMessage shortest message_save this messages
              \<lparr>setting = JStr ''REQUEST_DRIVER'',
               title = ''Order canceled.'',
               body = ''The order for '' @ businessName v @ '' has been canceled.'',
               data = Some
                 [(''orderId'', order_id order),
                  (''messageType'', ''ORDER_CANCELED''),
                  (''openModal'', ''false'')],
               senderId = Some (vendor_id v),
               senderModel = ''Vendor''\<rparr>
        in case fst sent of
             Threw e \<Rightarrow> (Threw e, snd sent)
           | Returned r \<Rightarrow> (Returned Undefined, snd sent))
       (\<lambda>error. Error \<lparr>message = None, errorString = Some error,
          functionName = Some ''notifyOrderCanceled'', err_status = None\<rparr>)"

section \<open>order.js\<close>

text \<open>
  The keys of \<^verbatim>\<open>orderSchema.disposition\<close> are \<^verbatim>\<open>type\<close>, \<^verbatim>\<open>enums\<close> and
  \<^verbatim>\<open>default\<close>. Mongoose's validator is declared under \<^verbatim>\<open>enum\<close> (as
  \<^verbatim>\<open>driverSchema.status\<close> does), so the list below is the one the schema names and no
  validator of \<^verbatim>\<open>save\<close>.
\<close>

definition dispositions :: "string list" where
  "dispositions = [''NEW'', ''PAID'', ''COMPLETE'', ''CANCELED'', ''DELIVERED'']"

definition default_disposition :: string where
  "default_disposition = ''NEW''"

record MenuItem =
  menuItem_id :: objectId
  menuItem_price :: double

record ModOption =
  option_price :: double

text \<open>
  \<^verbatim>\<open>modification.options\<close> is an array of options or a single option object;
  \<^verbatim>\<open>item.modifications\<close> is an array of modifications or a single modification object.
  The item names its menu item, and the price of a menu item and of an option is a
  Number, of which \<^verbatim>\<open>Number(x)\<close> is \<open>x\<close>.
\<close>

datatype options_value = Options_Array "ModOption list" | Options_Object ModOption

record Modification =
  options :: options_value

datatype modifications_value =
  Modifications_Array "Modification list" | Modifications_Object Modification

record Item =
  menuItem :: MenuItem
  price :: double
  modifications :: modifications_value

record OrderItem =
  orderItem_id :: objectId
  orderItem_menuItem :: objectId
  orderItem_price :: double
  orderItem_modifications :: modifications_value

text \<open>The OrderItem collection, by \<^verbatim>\<open>_id\<close>.\<close>

type_synonym orderItem_collection = "objectId \<Rightarrow> OrderItem option"

text \<open>
  The body of the outer \<^verbatim>\<open>forEach\<close> callback: what one modification adds to the
  running \<^verbatim>\<open>item.price\<close>, one \<^verbatim>\<open>+=\<close> for each option.
\<close>

fun add_options :: "options_value \<Rightarrow> double \<Rightarrow> double" where
  "add_options (Options_Array os) p = fold (\<lambda>option q. dadd q (option_price option)) os p"
| "add_options (Options_Object option) p = dadd p (option_price option)"

text \<open>
  \<open>new_id\<close> is the \<^verbatim>\<open>_id\<close> of the document \<^verbatim>\<open>new OrderItem({...item})\<close>,
  \<open>orderItem_save\<close> and \<open>order_save\<close> are what the two \<^verbatim>\<open>save\<close> calls throw, if
  anything. The collection holds one document per \<^verbatim>\<open>_id\<close>: inserting a second one
  is a duplicate-key error.
\<close>

record addOrderItem_env =
  new_id :: objectId
  orderItem_save :: "exn option"
  order_save :: "exn option"

definition addOrderItem ::
  "addOrderItem_env \<Rightarrow> Order \<Rightarrow> orderItem_collection \<Rightarrow> Item
     \<Rightarrow> outcome \<times> Item \<times> Order \<times> orderItem_collection" where
  "addOrderItem env this items item =
     (let item1 = item\<lparr>price := menuItem_price (menuItem item)\<rparr>
      in case modifications item1 of
           Modifications_Object m \<Rightarrow>
             (Threw (TypeError ''item.modifications.forEach is not a function''),
              item1, this, items)
         | Modifications_Array ms \<Rightarrow>
             (let item2 = item1\<lparr>price :=
                    fold (\<lambda>modification p. add_options (options modification) p) ms (price item1)\<rparr>
              in case orderItem_save env of
                   Some e \<Rightarrow> (Threw e, item2, this, items)
                 | None \<Rightarrow>
                     if items (new_id env) \<noteq> None then
                       (Threw (ExternalError ''E11000 duplicate key''), item2, this, items)
                     else
                       (let newOrderItem = \<lparr>orderItem_id = new_id env,
                              orderItem_menuItem = menuItem_id (menuItem item2),
                              orderItem_price = price item2,
                              orderItem_modifications = modifications item2\<rparr>;
                            items' = items(new_id env \<mapsto> newOrderItem);
                            this1 = this\<lparr>orderItems := orderItems this @ [new_id env]\<rparr>;
                            this2 = this1\<lparr>total := dadd (total this1) (price item2)\<rparr>
                        in case order_save env of
                             Some e \<Rightarrow> (Threw e, item2, this2, items')
                           | None \<Rightarrow> (Returned (Order_Doc this2), item2, this2, items'))))"

text \<open>
  \<open>findById\<close>, \<open>orderItem_remove\<close> and \<open>save_order\<close> are what
  \<^verbatim>\<open>OrderItem.findById\<close>, \<^verbatim>\<open>orderItem.remove()\<close> and \<^verbatim>\<open>this.save()\<close> throw, if
  anything. \<^verbatim>\<open>findById\<close> resolves to \<^verbatim>\<open>null\<close> when the collection has no such
  document.
\<close>

record removeOrderItem_env =
  findById :: "exn option"
  orderItem_remove :: "exn option"
  save_order :: "exn option"

definition removeOrderItem ::
  "removeOrderItem_env \<Rightarrow> Order \<Rightarrow> orderItem_collection \<Rightarrow> objectId
     \<Rightarrow> outcome \<times> Order \<times> orderItem_collection" where
  "removeOrderItem env this items itemId =
     (case findById env of
        Some e \<Rightarrow> (Threw e, this, items)
      | None \<Rightarrow>
          (let this1 = this\<lparr>orderItems := filter (\<lambda>i. i \<noteq> itemId) (orderItems this)\<rparr>
           in case items itemId of
                None \<Rightarrow> (Threw (TypeError ''orderItem is null''), this1, items)
              | Some orderItem \<Rightarrow>
                  (let this2 = this1\<lparr>total := dsub (total this1) (orderItem_price orderItem)\<rparr>
                   in case orderItem_remove env of
                        Some e \<Rightarrow> (Threw e, this2, items)
                      | None \<Rightarrow>
                          (let items' = items(itemId := None)
                           in case save_order env of
                                Some e \<Rightarrow> (Threw e, this2, items')
                              | None \<Rightarrow> (Returned (Order_Doc this2), this2, items')))))"

definition changeDisposition :: "exn option \<Rightarrow> Order \<Rightarrow> string \<Rightarrow> outcome \<times> Order" where
  "changeDisposition save this new_disposition =
     try_catch
       (let this' = this\<lparr>disposition := new_disposition\<rparr>
        in case save of
             Some e \<Rightarrow> (Threw e, this')
           | None \<Rightarrow> (Returned (Order_Doc this'), this'))
       (\<lambda>error. Error_Raw error ''changeDisposition'')"

subsection \<open>Sequences of ledger calls\<close>




section \<open>The words of the specification\<close>






text \<open>
  Amounts on which the arithmetic of Numbers is exact: whole numbers, the magnitudes of
  which sum to at most \<open>2 ^ 53\<close>, so that every sum and difference of some of them is
  a whole number of magnitude at most \<open>2 ^ 53\<close>.
\<close>

definition exact_amounts :: "double list \<Rightarrow> bool" where
  "exact_amounts xs = (list_all whole xs \<and> sum_list (map (\<lambda>x. \<bar>int_of x\<bar>) xs) \<le> 2 ^ 53)"

text \<open>
  The selected options of a list of modifications, both shapes of \<^verbatim>\<open>options\<close> made one
  list, and the amounts an item is priced from: the base price of its menu item and the
  prices of its selected options.
\<close>

definition selected_options :: "Modification list \<Rightarrow> ModOption list" where
  "selected_options ms =
     concat (map (\<lambda>m. case options m of Options_Array os \<Rightarrow> os | Options_Object option \<Rightarrow> [option]) ms)"

definition item_amounts :: "Item \<Rightarrow> double list" where
  "item_amounts item =
     menuItem_price (menuItem item) #
     (case modifications item of
        Modifications_Array ms \<Rightarrow> map option_price (selected_options ms)
      | Modifications_Object m \<Rightarrow> map option_price (selected_options [m]))"


section \<open>Sample documents\<close>

text \<open>
  Concrete documents, on which the statements below are evaluated. \<open>literal\<close> is the
  Number a decimal literal denotes.
\<close>

definition literal :: "rat \<Rightarrow> double" where
  "literal r = round_double r"

definition no_decimals :: printer where
  "no_decimals r = []"

definition order_of :: "objectId \<Rightarrow> objectId option \<Rightarrow> Order" where
  "order_of i v = \<lparr>order_id = i, customer = Some ''c1'', vendor = v, driver = None,
     orderItems = [], total = Finite 0, tip = Some (Finite 5), disposition = ''NEW''\<rparr>"

definition dana :: Driver where
  "dana = \<lparr>driver_id = ''d1'', email = ''dana@example.com'', password = ''$2b$10$hash'',
     status = ''INACTIVE'', deviceTokens = [''t1'', ''t2'', ''t1''], emailSettings = [],
     notificationSettings = [(''REQUEST_DRIVER'', True), (''CHAT'', True)], orders = []\<rparr>"

definition cafe :: Vendor where
  "cafe = \<lparr>vendor_id = ''v1'', businessName = ''Cafe'', vendor_address = Some ''1 Main St''\<rparr>"

text \<open>
  An environment in which nothing throws, for a driver whose assigned orders are the
  given documents.
\<close>

definition quiet_env :: "Order list \<Rightarrow> requestDriver_env" where
  "quiet_env assigned = \<lparr>assigned_orders = assigned, populate_orders = None,
     populate_order = Inr \<lparr>pop_vendor = Some cafe,
       pop_customer = Some \<lparr>firstName = ''Ann'', lastName = Some ''Lee''\<rparr>,
       pop_address = Some ''2 Side St''\<rparr>,
     getAddressString = (\<lambda>a. case a of None \<Rightarrow> Inl (TypeError ''address is undefined'')
                                | Some text \<Rightarrow> Inr text),
     save_message = None\<rparr>"

definition no_setting :: sendMessage_args where
  "no_setting = \<lparr>setting = JUndefined, title = ''Hello'', body = ''A message.'',
     data = Some [(''messageType'', ''CHAT'')], senderId = Some ''v1'', senderModel = ''Vendor''\<rparr>"

definition ready_message :: Message where
  "ready_message = \<lparr>msg_messageType = Some ''ORDER_READY'', msg_recipient = ''d1'',
     msg_recipientModel = ''Driver'', msg_sender = Some ''v1'', msg_senderModel = ''Vendor'',
     msg_title = ''Order up!'', msg_body = ''The order at Cafe is ready.'',
     msg_data = [(''orderId'', ''o1''), (''messageType'', ''ORDER_READY''), (''openModal'', ''false'')],
     msg_deviceTokens = [''t1'', ''t2'', ''t1'']\<rparr>"

definition menu_item :: "double \<Rightarrow> modifications_value \<Rightarrow> Item" where
  "menu_item base ms = \<lparr>menuItem = \<lparr>menuItem_id = ''m1'', menuItem_price = base\<rparr>,
     price = Finite 0, modifications = ms\<rparr>"

definition extras :: "double list \<Rightarrow> Modification" where
  "extras ps = \<lparr>options = Options_Array (map (\<lambda>p. \<lparr>option_price = p\<rparr>) ps)\<rparr>"

definition add_env :: "objectId \<Rightarrow> addOrderItem_env" where
  "add_env i = \<lparr>new_id = i, orderItem_save = None, order_save = None\<rparr>"

definition remove_env :: removeOrderItem_env where
  "remove_env = \<lparr>findById = None, orderItem_remove = None, save_order = None\<rparr>"

definition stored :: "objectId \<Rightarrow> double \<Rightarrow> OrderItem" where
  "stored i p = \<lparr>orderItem_id = i, orderItem_menuItem = ''m1'', orderItem_price = p,
     orderItem_modifications = Modifications_Array []\<rparr>"

text \<open>
  An order that lists the item \<open>a\<close> of price 5, and a collection that holds \<open>a\<close> and
  an item \<open>b\<close> of price 7 that the order does not list.
\<close>

definition tab :: "Order \<times> orderItem_collection" where
  "tab = ((order_of ''o1'' (Some ''v1''))\<lparr>orderItems := [''a''], total := Finite 5\<rparr>,
          [''a'' \<mapsto> stored ''a'' (Finite 5), ''b'' \<mapsto> stored ''b'' (Finite 7)])"

text \<open>
  An order that lists two items of the given prices, \<open>a\<close> and \<open>b\<close>, with the total
  that adding the one and then the other to an empty order gives.
\<close>

definition tab_of :: "double \<Rightarrow> double \<Rightarrow> Order \<times> orderItem_collection" where
  "tab_of p q = ((order_of ''o1'' (Some ''v1''))\<lparr>orderItems := [''a'', ''b''],
            total := dadd (dadd (Finite 0) p) q\<rparr>,
          [''a'' \<mapsto> stored ''a'' p, ''b'' \<mapsto> stored ''b'' q])"

text \<open>
  A credential verifier for an illustration: the hash of a plain text is the plain text
  behind the prefix \<open>H:\<close>.
\<close>

definition prefix_verifier :: "string \<Rightarrow> string \<Rightarrow> exn + bool" where
  "prefix_verifier plainText hash = Inr (hash = ''H:'' @ plainText)"

section \<open>Evaluating and bounding the arithmetic of Numbers\<close>

text \<open>Rules with which the simplifier evaluates \<open>round_double\<close> on numerals.\<close>

lemma bitlen_One: "bitlen 1 = 1"
  by (subst compute_bitlen) simp

lemma bitlen_Bit0: "bitlen (numeral (num.Bit0 n)) = bitlen (numeral n) + 1"
  by (subst compute_bitlen) simp

lemma bitlen_Bit1: "bitlen (numeral (num.Bit1 n)) = bitlen (numeral n) + 1"
  by (subst compute_bitlen) simp

lemma floor_rat_numeral_div: "\<lfloor>numeral a / numeral b :: rat\<rfloor> = numeral a div numeral b"
  by (metis floor_divide_of_int_eq of_int_numeral)

lemma floor_rat_one_div: "\<lfloor>1 / numeral b :: rat\<rfloor> = 1 div numeral b"
  by (metis floor_divide_of_int_eq of_int_1 of_int_numeral)

lemmas eval_double = round_double_def floor_log2_def round_half_even_def pow2_def Let_def
  bitlen_One bitlen_Bit0 bitlen_Bit1 dsub_def floor_rat_numeral_div floor_rat_one_div
  literal_def

text \<open>
  A whole number of magnitude at most \<open>2 ^ 53\<close> is a Number: rounding leaves it as it
  is. Hence the sum and the difference of two whole Numbers are exact when they are of
  magnitude at most \<open>2 ^ 53\<close>, and so is a sum of whole Numbers the magnitudes of which
  sum to at most \<open>2 ^ 53\<close>.
\<close>

lemma round_half_even_of_int: "round_half_even (of_int k) = k"
  by (simp add: round_half_even_def)

lemma floor_log2_of_int: "1 \<le> m \<Longrightarrow> floor_log2 (of_int m) = bitlen m - 1"
  by (simp add: floor_log2_def)

lemma round_double_pos:
  assumes m: "1 \<le> m" "m \<le> 2 ^ 53"
  shows "of_int (round_half_even (of_int m * pow2 (- max (floor_log2 (of_int m) - 52) (- 1074))))
           * pow2 (max (floor_log2 (of_int m) - 52) (- 1074)) = (of_int m :: rat)"
proof -
  define E where "E = bitlen m - 1"
  from m have pos: "0 < m" by simp
  from bitlen_bounds [OF pos] have lo: "2 ^ nat E \<le> m" by (simp add: E_def)
  have E0: "0 \<le> E"
    using pos bitlen_eq_zero_iff [of m] bitlen_nonneg [of m] by (simp add: E_def)
  have E53: "E \<le> 53"
  proof (rule ccontr)
    assume "\<not> E \<le> 53"
    then have "54 \<le> nat E" by simp
    then have "(2::int) ^ 54 \<le> 2 ^ nat E" by (rule power_increasing) simp
    with lo m(2) show False by simp
  qed
  have fl: "floor_log2 (of_int m) = E"
    using m(1) by (simp add: floor_log2_of_int E_def)
  have q: "max (E - 52) (- 1074) = E - 52" using E0 by simp
  show ?thesis
  proof (cases "E \<le> 52")
    case True
    define k where "k = nat (52 - E)"
    have p1: "pow2 (52 - E) = 2 ^ k" using True by (simp add: pow2_def k_def)
    have p2: "pow2 (E - 52) = 1 / 2 ^ k"
    proof (cases "E = 52")
      case True
      then show ?thesis by (simp add: pow2_def k_def)
    next
      case False
      with True have "E - 52 < 0" by simp
      moreover have "nat (- (E - 52)) = k" by (simp add: k_def)
      ultimately show ?thesis by (simp add: pow2_def)
    qed
    have "(of_int m :: rat) * 2 ^ k = of_int (m * 2 ^ k)" by simp
    then have "round_half_even (of_int m * 2 ^ k) = m * 2 ^ k"
      by (simp only: round_half_even_of_int)
    then show ?thesis by (simp add: fl q p1 p2)
  next
    case False
    with E53 have E: "E = 53" by simp
    with lo have "2 ^ 53 \<le> m" by simp
    with m(2) have m53: "m = 2 ^ 53" by simp
    have "(of_int m :: rat) * pow2 (- 1) = of_int (2 ^ 52)"
      by (simp add: m53 pow2_def)
    then have "round_half_even (of_int m * pow2 (- 1)) = 2 ^ 52"
      by (simp only: round_half_even_of_int)
    then show ?thesis by (simp add: fl q E) (simp add: pow2_def m53)
  qed
qed

lemma round_double_of_int:
  assumes "\<bar>n\<bar> \<le> 2 ^ 53"
  shows "round_double (of_int n) = Finite (of_int n)"
proof (cases "n = 0")
  case True
  then show ?thesis by (simp add: round_double_def)
next
  case False
  define m where "m = \<bar>n\<bar>"
  from False assms have m: "1 \<le> m" "m \<le> 2 ^ 53" by (simp_all add: m_def)
  have a: "\<bar>of_int n :: rat\<bar> = of_int m" by (simp add: m_def)
  have small: "\<not> pow2 1024 \<le> (of_int m :: rat)"
  proof -
    have "(of_int m :: rat) \<le> 2 ^ 53" using m(2) by (metis of_int_le_iff of_int_numeral of_int_power)
    also have "(2 :: rat) ^ 53 < 2 ^ 1024" by (rule power_strict_increasing) simp_all
    finally show ?thesis by (simp add: pow2_def)
  qed
  have sign: "(if 0 < n then of_int m else - of_int m) = (of_int n :: rat)"
    using False by (simp add: m_def)
  have "round_double (of_int n) = Finite (if 0 < n then of_int m else - of_int m)"
    using False small by (simp add: round_double_def Let_def a round_double_pos [OF m])
  with sign show ?thesis by (simp only:)
qed

lemma dadd_whole:
  "\<bar>a + b\<bar> \<le> 2 ^ 53 \<Longrightarrow>
   dadd (Finite (of_int a)) (Finite (of_int b)) = Finite (of_int (a + b))"
  using round_double_of_int [of "a + b"] by simp


lemma wholeD: "whole x \<Longrightarrow> x = Finite (of_int (int_of x)) \<and> \<bar>int_of x\<bar> \<le> 2 ^ 53"
proof (cases x)
  case (Finite r)
  assume "whole x"
  with Finite have r: "r = of_int \<lfloor>r\<rfloor>" and b: "\<bar>r\<bar> \<le> 2 ^ 53" by (simp_all add: whole_def)
  from b r have "\<bar>of_int \<lfloor>r\<rfloor> :: rat\<bar> \<le> 2 ^ 53" by simp
  then have "\<bar>\<lfloor>r\<rfloor>\<bar> \<le> 2 ^ 53"
    by (metis of_int_abs of_int_le_iff of_int_numeral of_int_power)
  with r Finite show ?thesis by (simp add: int_of_def)
qed (simp_all add: whole_def)

lemma whole_of_int:
  "\<bar>n\<bar> \<le> 2 ^ 53 \<Longrightarrow> whole (Finite (of_int n))"
  "int_of (Finite (of_int n)) = n"
proof -
  show "int_of (Finite (of_int n)) = n" by (simp add: int_of_def)
  assume "\<bar>n\<bar> \<le> 2 ^ 53"
  then have "\<bar>of_int n :: rat\<bar> \<le> 2 ^ 53"
    by (metis of_int_abs of_int_le_iff of_int_numeral of_int_power)
  then show "whole (Finite (of_int n))" by (simp add: whole_def)
qed

lemma foldl_exact:
  "list_all whole xs \<Longrightarrow> \<bar>t\<bar> + sum_list (map (\<lambda>x. \<bar>int_of x\<bar>) xs) \<le> 2 ^ 53 \<Longrightarrow>
   foldl dadd (Finite (of_int t)) xs = Finite (of_int (t + sum_list (map int_of xs)))"
proof (induction xs arbitrary: t)
  case Nil
  then show ?case by simp
next
  case (Cons x xs)
  from Cons.prems(1) have wx: "whole x" and wxs: "list_all whole xs" by simp_all
  from wholeD [OF wx] obtain k where k: "x = Finite (of_int k)" "int_of x = k" by auto
  have nonneg: "0 \<le> sum_list (map (\<lambda>x. \<bar>int_of x\<bar>) xs)" by (rule sum_list_nonneg) auto
  from Cons.prems(2) k nonneg have b1: "\<bar>t + k\<bar> \<le> 2 ^ 53" by simp
  from Cons.prems(2) k have b2: "\<bar>t + k\<bar> + sum_list (map (\<lambda>x. \<bar>int_of x\<bar>) xs) \<le> 2 ^ 53"
    by simp
  from Cons.IH [OF wxs b2] dadd_whole [OF b1] k show ?case by (simp add: add.assoc)
qed

section \<open>The ledger\<close>

text \<open>
  The two nested \<^verbatim>\<open>forEach\<close> loops add the prices of the selected options, in their
  order, to the running price.
\<close>

lemma fold_options:
  "fold (\<lambda>option q. dadd q (option_price option)) os p = foldl dadd p (map option_price os)"
  by (induction os arbitrary: p) simp_all

lemma add_options_flat:
  "add_options (options m) p = foldl dadd p (map option_price (selected_options [m]))"
  by (cases "options m") (simp_all add: selected_options_def fold_options)

lemma fold_modifications:
  "fold (\<lambda>modification p. add_options (options modification) p) ms p =
     foldl dadd p (map option_price (selected_options ms))"
proof (induction ms arbitrary: p)
  case Nil
  then show ?case by (simp add: selected_options_def)
next
  case (Cons m ms)
  then show ?case by (simp add: add_options_flat selected_options_def)
qed




lemma item_price_exact:
  assumes "exact_amounts (item_amounts item)"
    and ms: "modifications item = Modifications_Array ms"
  shows "foldl dadd (menuItem_price (menuItem item)) (map option_price (selected_options ms)) =
           Finite (of_int (sum_list (map int_of (item_amounts item))))"
proof -
  let ?base = "menuItem_price (menuItem item)"
  let ?opts = "map option_price (selected_options ms)"
  from ms have am: "item_amounts item = ?base # ?opts" by (simp add: item_amounts_def)
  from assms(1) am have wb: "whole ?base" and wo: "list_all whole ?opts"
    and b: "\<bar>int_of ?base\<bar> + sum_list (map (\<lambda>x. \<bar>int_of x\<bar>) ?opts) \<le> 2 ^ 53"
    by (simp_all add: exact_amounts_def)
  from wholeD [OF wb] have base: "?base = Finite (of_int (int_of ?base))" by simp
  from foldl_exact [OF wo b] base am show ?thesis by simp
qed




section \<open>The claims\<close>

lemma try_catch_returns: "\<exists>v. fst (try_catch r handler) = Returned v"
  by (cases "fst r") (simp_all add: try_catch_def)

lemma sendMessage_returns:
  "\<exists>v. fst (sendMessage shortest message_save this messages a) = Returned v"
  unfolding sendMessage_def by (rule try_catch_returns)

lemma count_list_pulled: "count_list (filter (\<lambda>t. t \<noteq> x) xs) x = 0"
  by (induction xs) auto

text \<open>
  Claim C1: no public operation ever lets an exception reach its caller. The operations
  that wrap their body in \<^verbatim>\<open>try\<close>/\<^verbatim>\<open>catch\<close> (\<^verbatim>\<open>sendEmail\<close>, \<^verbatim>\<open>sendMessage\<close>,
  \<^verbatim>\<open>requestDriver\<close>, \<^verbatim>\<open>notifyOrderReady\<close>, \<^verbatim>\<open>notifyOrderCanceled\<close>,
  \<^verbatim>\<open>changeDisposition\<close>) do return; \<^verbatim>\<open>toggleStatus\<close>, \<^verbatim>\<open>addDeviceToken\<close>,
  \<^verbatim>\<open>addOrderItem\<close> and \<^verbatim>\<open>removeOrderItem\<close> have no handler. Here \<^verbatim>\<open>toggleStatus\<close>
  is called on a driver without orders and \<^verbatim>\<open>save\<close> throws: the status is set and the
  exception reaches the caller.
\<close>

theorem toggleStatus_save_throws:
  "toggleStatus (Some (ExternalError ''connection lost'')) dana ''ACTIVE'' =
     (Threw (ExternalError ''connection lost''), dana\<lparr>status := ''ACTIVE''\<rparr>)"
  by (simp add: toggleStatus_def dana_def)

text \<open>The operations with a handler always return.\<close>

lemma handled_operations_return:
  "\<exists>r. fst (sendEmail shortest sendMail this s) = Returned r"
  "\<exists>r. fst (sendMessage shortest message_save this messages a) = Returned r"
  "\<exists>r. fst (requestDriver shortest env this messages order) = Returned r"
  "\<exists>r. fst (notifyOrderReady shortest message_save this messages v order) = Returned r"
  "\<exists>r. fst (notifyOrderCanceled shortest message_save this messages v order) = Returned r"
  "\<exists>r. fst (changeDisposition save order d) = Returned r"
  unfolding sendEmail_def sendMessage_def requestDriver_def notifyOrderReady_def
    notifyOrderCanceled_def changeDisposition_def
  by (rule try_catch_returns)+

text \<open>The other three operations without a handler, when a collaborator throws.\<close>

lemma unhandled_operations_throw:
  "fst (addDeviceToken (Some e) this t) = Threw e"
  "orderItem_save env = Some e \<Longrightarrow> modifications item = Modifications_Array ms \<Longrightarrow>
     fst (addOrderItem env order items item) = Threw e"
  "findById renv = Some e \<Longrightarrow> fst (removeOrderItem renv order items i) = Threw e"
  by (simp_all add: addDeviceToken_def addOrderItem_def removeOrderItem_def Let_def)


text \<open>The definitions that the evaluation of a ledger call on sample documents unfolds.\<close>

lemmas sample_defs = tab_def tab_of_def order_of_def add_env_def remove_env_def menu_item_def
  extras_def stored_def




text \<open>
  Claim C3, as amended: for every driver whose orders list is non-empty and every order that
  has no driver assigned and references a vendor, once the driver's assigned orders have
  been loaded, if any of the driver's currently assigned orders references a vendor
  different from the new order's vendor, then \<^verbatim>\<open>requestDriver\<close> returns the refusal
  \<^verbatim>\<open>{error: {message: "Driver is currently delivering for another vendor."}}\<close>
  and persists no message.
\<close>

theorem requestDriver_vendor_differs:
  "driver order = None \<Longrightarrow> orders this \<noteq> [] \<Longrightarrow> populate_orders env = None \<Longrightarrow>
   vendor order \<noteq> None \<Longrightarrow> \<exists>assigned\<in>set (assigned_orders env). vendor assigned \<noteq> vendor order \<Longrightarrow>
   requestDriver shortest env this messages order =
     (Returned (Error \<lparr>message = Some ''Driver is currently delivering for another vendor.'',
        errorString = None, functionName = None, err_status = None\<rparr>), messages)"
  by (cases "assigned_orders env")
     (auto simp: requestDriver_def other_vendor_def not_same_object_def try_catch_def
        refusal_def)

text \<open>
  An active driver with two assigned orders, the first of the vendor \<open>v1\<close> and the
  second of the vendor \<open>v2\<close>, is requested for an order of the vendor \<open>v1\<close>.
\<close>

theorem requestDriver_vendor_differs_witness:
  "driver (order_of ''o3'' (Some ''v1'')) = None \<and>
   orders (dana\<lparr>status := ''ACTIVE'', orders := [''o1'', ''o2'']\<rparr>) \<noteq> [] \<and>
   populate_orders (quiet_env [order_of ''o1'' (Some ''v1''), order_of ''o2'' (Some ''v2'')]) = None \<and>
   vendor (order_of ''o3'' (Some ''v1'')) \<noteq> None \<and>
   (\<exists>assigned\<in>set (assigned_orders
        (quiet_env [order_of ''o1'' (Some ''v1''), order_of ''o2'' (Some ''v2'')])).
      vendor assigned \<noteq> vendor (order_of ''o3'' (Some ''v1''))) \<and>
   requestDriver no_decimals
       (quiet_env [order_of ''o1'' (Some ''v1''), order_of ''o2'' (Some ''v2'')])
       (dana\<lparr>status := ''ACTIVE'', orders := [''o1'', ''o2'']\<rparr>) []
       (order_of ''o3'' (Some ''v1'')) =
     (Returned (Error \<lparr>message = Some ''Driver is currently delivering for another vendor.'',
        errorString = None, functionName = None, err_status = None\<rparr>), [])"
proof -
  let ?d = "dana\<lparr>status := ''ACTIVE'', orders := [''o1'', ''o2'']\<rparr>"
  let ?env = "quiet_env [order_of ''o1'' (Some ''v1''), order_of ''o2'' (Some ''v2'')]"
  let ?order = "order_of ''o3'' (Some ''v1'')"
  have a: "driver ?order = None" by (simp add: order_of_def)
  have b: "orders ?d \<noteq> []" by simp
  have c: "populate_orders ?env = None" by (simp add: quiet_env_def)
  have d: "vendor ?order \<noteq> None" by (simp add: order_of_def)
  have e: "\<exists>assigned\<in>set (assigned_orders ?env). vendor assigned \<noteq> vendor ?order"
    by (simp add: quiet_env_def order_of_def)
  from requestDriver_vendor_differs [OF a b c d e, of no_decimals "[]"] a b c d e
  show ?thesis by simp
qed

text \<open>
  The refusal does not depend on the vendors of the assigned orders: the vendor field of
  the first loaded order is never the object that the new order holds.
\<close>

lemma requestDriver_refuses_every_route:
  "driver order = None \<Longrightarrow> orders this \<noteq> [] \<Longrightarrow> populate_orders env = None \<Longrightarrow>
   assigned_orders env \<noteq> [] \<Longrightarrow> vendor order \<noteq> None \<Longrightarrow>
   requestDriver shortest env this messages order =
     (Returned (refusal ''Driver is currently delivering for another vendor.''), messages)"
  by (cases "assigned_orders env")
     (auto simp: requestDriver_def other_vendor_def not_same_object_def try_catch_def)

text \<open>
  Claim C3 as stated fails, in two ways. The driver's one assigned order is of the vendor
  \<open>v2\<close>, the new order of the vendor \<open>v1\<close>, and loading the assigned orders throws:
  \<^verbatim>\<open>requestDriver\<close> returns the wrapped failure, not the refusal. And when neither
  the first assigned order nor the new order has a vendor set, while the second assigned
  order references one, the vendor check passes: the driver, who is inactive, is reported
  offline.
\<close>

theorem requestDriver_counterexample:
  "driver (order_of ''o3'' (Some ''v1'')) = None \<and>
   orders (dana\<lparr>status := ''ACTIVE'', orders := [''o1'']\<rparr>) \<noteq> [] \<and>
   vendor (hd (assigned_orders
      ((quiet_env [order_of ''o1'' (Some ''v2'')])
         \<lparr>populate_orders := Some (ExternalError ''connection lost'')\<rparr>))) \<noteq>
     vendor (order_of ''o3'' (Some ''v1'')) \<and>
   requestDriver no_decimals
       ((quiet_env [order_of ''o1'' (Some ''v2'')])
          \<lparr>populate_orders := Some (ExternalError ''connection lost'')\<rparr>)
       (dana\<lparr>status := ''ACTIVE'', orders := [''o1'']\<rparr>) []
       (order_of ''o3'' (Some ''v1'')) =
     (Returned (Error \<lparr>message = None, errorString = Some (ExternalError ''connection lost''),
        functionName = Some ''requestDriver'', err_status = None\<rparr>), []) \<and>
   driver (order_of ''o3'' None) = None \<and>
   orders (dana\<lparr>orders := [''o1'', ''o2'']\<rparr>) \<noteq> [] \<and>
   vendor (assigned_orders (quiet_env [order_of ''o1'' None, order_of ''o2'' (Some ''v2'')]) ! 1) \<noteq>
     vendor (order_of ''o3'' None) \<and>
   requestDriver no_decimals (quiet_env [order_of ''o1'' None, order_of ''o2'' (Some ''v2'')])
       (dana\<lparr>orders := [''o1'', ''o2'']\<rparr>) [] (order_of ''o3'' None) =
     (Returned (Error \<lparr>message = Some ''Driver is offline.'',
        errorString = None, functionName = None, err_status = None\<rparr>), [])"
  by (simp add: requestDriver_def other_vendor_def not_same_object_def try_catch_def refusal_def
      order_of_def dana_def quiet_env_def)

text \<open>
  Claim C4, as amended: for every item whose modifications are an ordered list of
  modification entries, the options of each entry being a single option object or an ordered
  list of option objects, \<^verbatim>\<open>addOrderItem\<close> sets \<^verbatim>\<open>item.price\<close> to the base price of the
  menu item with the price of every selected option of every entry added to it, one after
  the other in their order (both shapes of options made one list) and, once the new
  OrderItem is saved, appends it to \<^verbatim>\<open>order.orderItems\<close> and adds \<^verbatim>\<open>item.price\<close> to
  \<^verbatim>\<open>order.total\<close>; it returns the order when the order is saved. The additions are
  those of Numbers.
\<close>

theorem addOrderItem_array:
  assumes "modifications item = Modifications_Array ms"
    and "orderItem_save env = None"
    and "items (new_id env) = None"
  shows "case addOrderItem env this items item of
           (r, item', this', items') \<Rightarrow>
             price item' =
               foldl dadd (menuItem_price (menuItem item))
                 (map option_price (selected_options ms)) \<and>
             orderItems this' = orderItems this @ [new_id env] \<and>
             total this' = dadd (total this) (price item') \<and>
             map_option orderItem_price (items' (new_id env)) = Some (price item') \<and>
             r = (case order_save env of
                    None \<Rightarrow> Returned (Order_Doc this')
                  | Some e \<Rightarrow> Threw e)"
  using assms
  by (simp add: addOrderItem_def Let_def fold_modifications split: option.split)

text \<open>
  The scenario of the specification: base price 10 and the modifications list
  \<^verbatim>\<open>[{options: [{price: 2}, {price: 1}]}]\<close> give the price 13, and the total, 5 before,
  grows by 13.
\<close>

theorem addOrderItem_array_witness:
  "modifications (menu_item (Finite 10) (Modifications_Array [extras [Finite 2, Finite 1]])) =
     Modifications_Array [extras [Finite 2, Finite 1]] \<and>
   orderItem_save (add_env ''i1'') = None \<and>
   snd tab (new_id (add_env ''i1'')) = None \<and>
   (case addOrderItem (add_env ''i1'') (fst tab) (snd tab)
           (menu_item (Finite 10) (Modifications_Array [extras [Finite 2, Finite 1]])) of
      (r, item', this', items') \<Rightarrow>
        price item' = Finite 13 \<and> orderItems this' = [''a'', ''i1''] \<and>
        total this' = dadd (total (fst tab)) (Finite 13) \<and> total this' = Finite 18 \<and>
        map_option orderItem_price (items' ''i1'') = Some (Finite 13) \<and>
        r = Returned (Order_Doc this'))"
proof -
  let ?item = "menu_item (Finite 10) (Modifications_Array [extras [Finite 2, Finite 1]])"
  have a: "modifications ?item = Modifications_Array [extras [Finite 2, Finite 1]]"
    by (simp add: menu_item_def)
  have b: "orderItem_save (add_env ''i1'') = None" by (simp add: add_env_def)
  have c: "snd tab (new_id (add_env ''i1'')) = None" by (simp add: add_env_def tab_def)
  have p: "foldl dadd (menuItem_price (menuItem ?item))
             (map option_price (selected_options [extras [Finite 2, Finite 1]])) = Finite 13"
    by (simp add: menu_item_def extras_def selected_options_def eval_double)
  have t: "dadd (total (fst tab)) (Finite 13) = Finite 18"
    by (simp add: tab_def order_of_def eval_double)
  from addOrderItem_array [of ?item "[extras [Finite 2, Finite 1]]" "add_env ''i1''" "snd tab"
      "fst tab", OF a b c] a b c p t
  show ?thesis
    by (auto simp: add_env_def tab_def order_of_def split: prod.splits)
qed

text \<open>
  Claim C4 as stated fails, in two ways. For the single-object shape of
  \<^verbatim>\<open>item.modifications\<close>: an object has no \<^verbatim>\<open>forEach\<close>, the call throws after setting
  \<^verbatim>\<open>item.price\<close> to the base price, and the order and the collection are as before. And
  the price is not the base price plus the sum of the option prices: with the base price
  0.1 and options of prices 0.2 and 0.3 the price is 0.6000000000000001, where 0.1 plus
  the sum of 0.2 and 0.3 is 0.6.
\<close>

theorem addOrderItem_counterexample:
  "addOrderItem (add_env ''i1'') (fst tab) (snd tab)
       (menu_item (Finite 10) (Modifications_Object (extras [Finite 2, Finite 1]))) =
     (Threw (TypeError ''item.modifications.forEach is not a function''),
      (menu_item (Finite 10) (Modifications_Object (extras [Finite 2, Finite 1])))
        \<lparr>price := Finite 10\<rparr>,
      fst tab, snd tab) \<and>
   (case addOrderItem (add_env ''i1'') (fst tab) (snd tab)
           (menu_item (literal (1 / 10))
              (Modifications_Array [extras [literal (2 / 10), literal (3 / 10)]])) of
      (r, item', this', items') \<Rightarrow>
        price item' = literal (6000000000000001 / 10000000000000000) \<and>
        dadd (literal (1 / 10)) (foldl dadd (Finite 0) [literal (2 / 10), literal (3 / 10)]) =
          literal (6 / 10) \<and>
        price item' \<noteq> literal (6 / 10))"
  by (simp add: sample_defs addOrderItem_def eval_double)

text \<open>
  On exact amounts the price is the whole number that the base price and the option prices
  sum to.
\<close>

lemma addOrderItem_exact_amounts:
  assumes "modifications item = Modifications_Array ms"
    and "exact_amounts (item_amounts item)"
  shows "price (fst (snd (addOrderItem env this items item))) =
           Finite (of_int (sum_list (map int_of (item_amounts item))))"
  using assms item_price_exact [OF assms(2,1)]
  by (simp add: addOrderItem_def Let_def fold_modifications split: option.split)

text \<open>
  Claim C5: the disposition of an order is always one of NEW, PAID, COMPLETE, CANCELED and
  DELIVERED, also after \<^verbatim>\<open>changeDisposition\<close> with any string. The schema names the five
  values under a key that declares no validator, and \<^verbatim>\<open>changeDisposition\<close> assigns its
  argument: a new order is given the disposition \<open>BOGUS\<close>, which is saved and returned.
\<close>

theorem changeDisposition_unlisted_value:
  "disposition (order_of ''o1'' (Some ''v1'')) = default_disposition \<and>
   default_disposition \<in> set dispositions \<and>
   ''BOGUS'' \<notin> set dispositions \<and>
   changeDisposition None (order_of ''o1'' (Some ''v1'')) ''BOGUS'' =
     (Returned (Order_Doc ((order_of ''o1'' (Some ''v1''))\<lparr>disposition := ''BOGUS''\<rparr>)),
      (order_of ''o1'' (Some ''v1''))\<lparr>disposition := ''BOGUS''\<rparr>)"
  by (simp add: changeDisposition_def try_catch_def dispositions_def default_disposition_def
      order_of_def Let_def)

text \<open>Whatever \<^verbatim>\<open>save\<close> does, the order holds the argument afterwards.\<close>

lemma changeDisposition_assigns:
  "disposition (snd (changeDisposition save this d)) = d"
  by (simp add: changeDisposition_def try_catch_def Let_def split: option.split)

text \<open>
  Claim C6: \<^verbatim>\<open>notifyOrderReady\<close> and \<^verbatim>\<open>notifyOrderCanceled\<close> return whatever the
  dispatcher returns. Both await \<^verbatim>\<open>sendMessage\<close> without returning its result: for a
  driver who accepts \<^verbatim>\<open>REQUEST_DRIVER\<close> the dispatcher saves and returns the Message, and
  for a driver who has turned the setting off it returns the refusal; the two operations
  return \<^verbatim>\<open>undefined\<close> in both cases.
\<close>

theorem notify_returns_undefined:
  "sendMessage shortest None dana []
     \<lparr>setting = JStr ''REQUEST_DRIVER'', title = ''Order up!'',
      body = ''The order at Cafe is ready.'',
      data = Some [(''orderId'', ''o1''), (''messageType'', ''ORDER_READY''),
                   (''openModal'', ''false'')],
      senderId = Some ''v1'', senderModel = ''Vendor''\<rparr> =
     (Returned (Saved_Message ready_message), [ready_message]) \<and>
   notifyOrderReady shortest None dana [] cafe (order_of ''o1'' (Some ''v1'')) =
     (Returned Undefined, [ready_message]) \<and>
   fst (notifyOrderCanceled shortest None dana [] cafe (order_of ''o1'' (Some ''v1''))) =
     Returned Undefined \<and>
   notifyOrderReady shortest None (dana\<lparr>notificationSettings := [(''REQUEST_DRIVER'', False)]\<rparr>) []
       cafe (order_of ''o1'' (Some ''v1'')) =
     (Returned Undefined, []) \<and>
   notifyOrderCanceled shortest None
       (dana\<lparr>notificationSettings := [(''REQUEST_DRIVER'', False)]\<rparr>) []
       cafe (order_of ''o1'' (Some ''v1'')) =
     (Returned Undefined, [])"
  by (simp add: notifyOrderReady_def notifyOrderCanceled_def sendMessage_def try_catch_def
      setting_enabled_def dana_def cafe_def order_of_def ready_message_def Let_def)

text \<open>For every driver, vendor and order the two operations return \<^verbatim>\<open>undefined\<close>.\<close>

lemma notify_always_undefined:
  "fst (notifyOrderReady shortest message_save this messages v order) = Returned Undefined"
  "fst (notifyOrderCanceled shortest message_save this messages v order) = Returned Undefined"
proof -
  show "fst (notifyOrderReady shortest message_save this messages v order) = Returned Undefined"
    unfolding notifyOrderReady_def Let_def
    using sendMessage_returns [of shortest message_save this messages]
    by (simp add: try_catch_def split: outcome.split) (metis outcome.distinct(1))
  show "fst (notifyOrderCanceled shortest message_save this messages v order) = Returned Undefined"
    unfolding notifyOrderCanceled_def Let_def
    using sendMessage_returns [of shortest message_save this messages]
    by (simp add: try_catch_def split: outcome.split) (metis outcome.distinct(1))
qed

text \<open>
  Claim C7: for every driver whose orders list is non-empty,
  \<^verbatim>\<open>toggleStatus(driver, "INACTIVE")\<close> returns the refusal
  \<^verbatim>\<open>{error: {message: "There are still active orders on your route!",
  functionName: "toggleStatus", status: 418}}\<close> and leaves the driver, its status included,
  as it was.
\<close>

theorem toggleStatus_refuses:
  "orders this \<noteq> [] \<Longrightarrow>
   toggleStatus save this ''INACTIVE'' =
     (Returned (Error \<lparr>message = Some ''There are still active orders on your route!'',
        errorString = None, functionName = Some ''toggleStatus'', err_status = Some 418\<rparr>), this)"
  by (simp add: toggleStatus_def)

text \<open>An active driver with one assigned order.\<close>

theorem toggleStatus_refuses_witness:
  "orders (dana\<lparr>status := ''ACTIVE'', orders := [''o1'']\<rparr>) \<noteq> [] \<and>
   toggleStatus None (dana\<lparr>status := ''ACTIVE'', orders := [''o1'']\<rparr>) ''INACTIVE'' =
     (Returned (Error \<lparr>message = Some ''There are still active orders on your route!'',
        errorString = None, functionName = Some ''toggleStatus'', err_status = Some 418\<rparr>),
      dana\<lparr>status := ''ACTIVE'', orders := [''o1'']\<rparr>) \<and>
   status (snd (toggleStatus None (dana\<lparr>status := ''ACTIVE'', orders := [''o1'']\<rparr>)
       ''INACTIVE'')) = ''ACTIVE''"
proof -
  have a: "orders (dana\<lparr>status := ''ACTIVE'', orders := [''o1'']\<rparr>) \<noteq> []"
    by simp
  from toggleStatus_refuses [OF a, of None] a show ?thesis by simp
qed

text \<open>
  Claim C8: for every recipient and every call to \<^verbatim>\<open>sendMessage\<close> in which
  \<^verbatim>\<open>setting\<close> is absent or falsy, no Message is constructed or persisted (the collection
  is as before) and the operation returns the refusal
  \<^verbatim>\<open>{error: {message: "Driver has turned off notification setting: <setting>",
  status: 200}}\<close>, whatever the recipient's notification settings hold.
\<close>

theorem sendMessage_falsy_setting:
  "\<not> truthy (setting a) \<Longrightarrow>
   sendMessage shortest message_save this messages a =
     (Returned (Error \<lparr>message =
          Some (''Driver has turned off notification setting: '' @
                to_string shortest (setting a)),
        errorString = None, functionName = None, err_status = Some 200\<rparr>), messages)"
  by (simp add: sendMessage_def try_catch_def)

text \<open>A call without a setting.\<close>

theorem sendMessage_falsy_setting_witness:
  "\<not> truthy (setting no_setting) \<and>
   sendMessage no_decimals None dana [] no_setting =
     (Returned (Error \<lparr>message =
          Some ''Driver has turned off notification setting: undefined'',
        errorString = None, functionName = None, err_status = Some 200\<rparr>), [])"
proof -
  have a: "\<not> truthy (setting no_setting)" by (simp add: no_setting_def)
  from sendMessage_falsy_setting [OF a, of no_decimals None dana "[]"] a show ?thesis
    by (simp add: no_setting_def)
qed

text \<open>The falsy Numbers and what the refusal prints for them.\<close>

lemma falsy_numbers:
  "\<not> truthy (JNum (Finite 0))" "to_string shortest (JNum (Finite 0)) = ''0''"
  "\<not> truthy (JNum NaN)" "to_string shortest (JNum NaN) = ''NaN''"
  by (simp_all add: number_string_def whole_def show_int_def show_nat.simps digit_def)

text \<open>
  Claim C9: for every driver and every token \<open>t\<close>, after \<^verbatim>\<open>addDeviceToken(driver, t)\<close>
  the driver's \<^verbatim>\<open>deviceTokens\<close> hold \<open>t\<close> exactly once, in the last position, the other
  tokens being kept in their order; a second call with the same \<open>t\<close> leaves the list as
  the first call left it. This holds of the driver object whether or not \<^verbatim>\<open>save\<close> throws.
\<close>

theorem addDeviceToken_once_last:
  "count_list (deviceTokens (snd (addDeviceToken save this t))) t = 1 \<and>
   last (deviceTokens (snd (addDeviceToken save this t))) = t \<and>
   filter (\<lambda>u. u \<noteq> t) (deviceTokens (snd (addDeviceToken save this t))) =
     filter (\<lambda>u. u \<noteq> t) (deviceTokens this) \<and>
   count_list (deviceTokens (snd (addDeviceToken save' (snd (addDeviceToken save this t)) t))) t = 1 \<and>
   last (deviceTokens (snd (addDeviceToken save' (snd (addDeviceToken save this t)) t))) = t \<and>
   deviceTokens (snd (addDeviceToken save' (snd (addDeviceToken save this t)) t)) =
     deviceTokens (snd (addDeviceToken save this t))"
  by (simp add: addDeviceToken_def Let_def count_list_pulled split: option.split)

text \<open>On the sample driver, whose tokens are \<open>t1\<close>, \<open>t2\<close>, \<open>t1\<close>.\<close>

lemma addDeviceToken_sample:
  "deviceTokens (snd (addDeviceToken None dana ''t1'')) = [''t2'', ''t1'']"
  by (simp add: addDeviceToken_def dana_def Let_def)

text \<open>
  Claim C10: for every driver and every candidate password \<open>p\<close>,
  \<^verbatim>\<open>validatePassword(p)\<close> calls the verifier with the driver's stored password in the
  first position (the plain text of \<^verbatim>\<open>verifyPassword(plainText, hash)\<close>) and \<open>p\<close> in the
  second (the hash), and returns what the verifier yields for this pair.
\<close>

theorem validatePassword_swapped:
  "validatePassword verifyPassword this p =
     (case verifyPassword (password this) p of
        Inl e \<Rightarrow> Threw e
      | Inr b \<Rightarrow> Returned (Boolean b))"
  by (simp add: validatePassword_def)

text \<open>
  With the verifier above and the stored hash of \<open>secret\<close>, the password \<open>secret\<close>
  is verified in the order \<^verbatim>\<open>(plainText, hash)\<close> and rejected by
  \<^verbatim>\<open>validatePassword\<close>.
\<close>

lemma validatePassword_order_matters:
  "prefix_verifier ''secret'' ''H:secret'' = Inr True \<and>
   validatePassword prefix_verifier (dana\<lparr>password := ''H:secret''\<rparr>) ''secret'' =
     Returned (Boolean False)"
  by (simp add: prefix_verifier_def validatePassword_def)

text \<open>
  Numbers where rounding shows: \<open>2 ^ 53 + 1\<close> is no Number, and 0.1 + 0.2 is not 0.3.
\<close>

lemma rounding_examples:
  "dadd (Finite (2 ^ 53)) (Finite 1) = Finite (2 ^ 53)"
  "dadd (Finite 5) (Finite (2 ^ 53)) = Finite 9007199254740996"
  "dadd (literal (1 / 10)) (literal (2 / 10)) = literal (30000000000000004 / 100000000000000000)"
  "dadd (literal (1 / 10)) (literal (2 / 10)) \<noteq> literal (3 / 10)"
  "dsub (literal (6000000000000001 / 10000000000000000)) (literal (1 / 10)) =
     literal (5000000000000001 / 10000000000000000)"
  "dadd PosInfinity NegInfinity = NaN"
  by (simp_all add: eval_double)

text \<open>
  The scenario of the specification: an active driver without orders and an order with the
  tip 5 give a saved message of type \<open>REQUEST_DRIVER\<close> whose tip is the string \<open>5\<close>.
\<close>

lemma requestDriver_scenario:
  "case fst (requestDriver shortest (quiet_env []) (dana\<lparr>status := ''ACTIVE''\<rparr>) []
         (order_of ''o1'' (Some ''v1''))) of
     Returned (Saved_Message m) \<Rightarrow>
       msg_messageType m = Some ''REQUEST_DRIVER'' \<and> map_of (msg_data m) ''tip'' = Some ''5''
   | _ \<Rightarrow> False"
  by (simp add: requestDriver_def other_vendor_def try_catch_def order_of_def dana_def
      quiet_env_def request_message_def sendMessage_def setting_enabled_def cafe_def Let_def
      number_string_def whole_def show_int_def show_nat.simps digit_def)

end
